theory Spec2Isabelle
  imports Main "HOL-Library.Sublist"
begin

section \<open>Python values\<close>

text \<open>
  The values that flow through \<^verbatim>\<open>chat.py\<close>: what \<^verbatim>\<open>res.json()\<close> and
  \<^verbatim>\<open>json.loads\<close> return (None, bool, int, str, list, dict with string keys) and what the
  request body is built from. A dict is an association list in insertion order; a lookup
  takes the first entry of a key. Fractional numbers are outside the model. A
  \<^verbatim>\<open>datetime\<close> is carried as an opaque value of the same type.
\<close>

datatype pyval =
    PNone
  | PBool bool
  | PInt int
  | PStr string
  | PList "pyval list"
  | PDict "(string \<times> pyval) list"

text \<open>\<^verbatim>\<open>d[k] = v\<close>: an existing key keeps its position, a new key is appended.\<close>

fun dict_set :: "string \<Rightarrow> pyval \<Rightarrow> (string \<times> pyval) list \<Rightarrow> (string \<times> pyval) list" where
  "dict_set k v [] = [(k, v)]"
| "dict_set k v (p # ps) = (if fst p = k then (k, v) # ps else p # dict_set k v ps)"

text \<open>Truthiness, as \<^verbatim>\<open>not x\<close> and \<^verbatim>\<open>x or y\<close> test it.\<close>

fun truthy :: "pyval \<Rightarrow> bool" where
  "truthy PNone = False"
| "truthy (PBool b) = b"
| "truthy (PInt n) = (n \<noteq> 0)"
| "truthy (PStr s) = (s \<noteq> [])"
| "truthy (PList xs) = (xs \<noteq> [])"
| "truthy (PDict kvs) = (kvs \<noteq> [])"

text \<open>
  The exceptions a call can end with. \<open>BadResponseException\<close> carries the response it
  was raised for (the source formats it into the message).
\<close>

datatype error =
    AttributeError
  | TypeError
  | KeyError
  | JSONDecodeError
  | ValidationError
  | ClientConnectionError
  | ClientResponseError nat
  | ContentTypeError
  | BadResponseException pyval

text \<open>\<^verbatim>\<open>key in x\<close> for a string key: dict keys, list elements, substrings of a str.\<close>

fun py_in :: "string \<Rightarrow> pyval \<Rightarrow> error + bool" where
  "py_in k (PDict kvs) = Inr (k \<in> fst ` set kvs)"
| "py_in k (PList xs) = Inr (PStr k \<in> set xs)"
| "py_in k (PStr s) = Inr (sublist k s)"
| "py_in k PNone = Inl TypeError"
| "py_in k (PBool b) = Inl TypeError"
| "py_in k (PInt n) = Inl TypeError"

text \<open>\<^verbatim>\<open>x[key]\<close> for a string key.\<close>

fun getitem :: "pyval \<Rightarrow> string \<Rightarrow> error + pyval" where
  "getitem (PDict kvs) k = (case map_of kvs k of None \<Rightarrow> Inl KeyError | Some v \<Rightarrow> Inr v)"
| "getitem PNone k = Inl TypeError"
| "getitem (PBool b) k = Inl TypeError"
| "getitem (PInt n) k = Inl TypeError"
| "getitem (PStr s) k = Inl TypeError"
| "getitem (PList xs) k = Inl TypeError"

text \<open>
  \<^verbatim>\<open>x[0]\<close>. It is only evaluated on a truthy \<open>x\<close>, so a list or str has a first
  element; the empty cases are written out all the same.
\<close>

fun getitem0 :: "pyval \<Rightarrow> error + pyval" where
  "getitem0 (PList (x # xs)) = Inr x"
| "getitem0 (PList []) = Inl KeyError"
| "getitem0 (PStr (c # cs)) = Inr (PStr [c])"
| "getitem0 (PStr []) = Inl KeyError"
| "getitem0 (PDict kvs) = Inl KeyError"
| "getitem0 PNone = Inl TypeError"
| "getitem0 (PBool b) = Inl TypeError"
| "getitem0 (PInt n) = Inl TypeError"

section \<open>Building the request\<close>

text \<open>\<^verbatim>\<open>text or prompt\<close>: the prompt when \<open>text\<close> is None or the empty string.\<close>

definition text_or_prompt :: "string option \<Rightarrow> string \<Rightarrow> string" where
  "text_or_prompt text prompt =
     (case text of None \<Rightarrow> prompt | Some t \<Rightarrow> if t \<noteq> [] then t else prompt)"

definition message :: "string \<Rightarrow> string \<Rightarrow> pyval" where
  "message role content = PDict [(''role'', PStr role), (''content'', PStr content)]"

text \<open>
  \<^verbatim>\<open>_construct_messages(prompt, text=None)\<close>, lines 36 to 42:
  the system message is added when \<^verbatim>\<open>text is not None\<close>, the user message holds
  \<^verbatim>\<open>text or prompt\<close>.
\<close>

definition construct_messages :: "string \<Rightarrow> string option \<Rightarrow> pyval list" where
  "construct_messages prompt text =
     (let messages = [];
          messages = (if text \<noteq> None then messages @ [message ''system'' prompt] else messages)
      in messages @ [message ''user'' (text_or_prompt text prompt)])"

text \<open>
  A pydantic model class, as far as \<^verbatim>\<open>chat.py\<close> uses it: \<^verbatim>\<open>__name__\<close>,
  \<^verbatim>\<open>Config.description\<close> (None when the class has no such attribute),
  the dict \<^verbatim>\<open>model_json_schema()\<close> returns, and the declared fields. A field validates
  the value passed for it (None: the value is rejected) and may have a default.
\<close>

datatype field = Field (field_validate: "pyval \<Rightarrow> pyval option") (field_default: "pyval option")

record pydantic_model =
  cls_name :: string
  config_description :: "string option"
  model_json_schema :: "(string \<times> pyval) list"
  model_fields :: "(string \<times> field) list"

text \<open>\<^verbatim>\<open>get_json_schema_from_pydantic(pydantic_model)\<close>, lines 45 to 61.\<close>

definition get_json_schema_from_pydantic :: "pydantic_model \<Rightarrow> error + pyval" where
  "get_json_schema_from_pydantic pydantic_model =
     (let schema = model_json_schema pydantic_model;
          schema = dict_set ''additionalProperties'' (PBool False) schema
      in case config_description pydantic_model of
           None \<Rightarrow> Inl AttributeError
         | Some description \<Rightarrow>
             (let json_schema =
                    [(''name'', PStr (cls_name pydantic_model)),
                     (''description'', PStr description),
                     (''schema'', PDict schema),
                     (''strict'', PBool True)]
              in Inr (PDict [(''type'', PStr ''json_schema''),
                             (''json_schema'', PDict json_schema)])))"

text \<open>
  The collaborators that are not in \<^verbatim>\<open>chat.py\<close>, taken as parameters:
  \<^verbatim>\<open>count_tokens\<close>, \<^verbatim>\<open>json.loads\<close> (None: the text is not JSON),
  \<^verbatim>\<open>datetime.now()\<close>, and the validation of a \<^verbatim>\<open>datetime\<close> and of a
  \<^verbatim>\<open>GPTTokens\<close> field.
\<close>

record env =
  count_tokens :: "pyval list \<Rightarrow> string \<Rightarrow> nat"
  json_loads :: "string \<Rightarrow> pyval option"
  datetime_now :: pyval
  datetime_validate :: "pyval \<Rightarrow> pyval option"
  gpt_tokens_validate :: "pyval \<Rightarrow> pyval option"

text \<open>
  Lines 90 to 96 of \<^verbatim>\<open>call_openai_chat\<close>: the messages, the token estimate and the
  request body, with \<^verbatim>\<open>response_format\<close> added when a model class is given.
\<close>

definition request_data ::
  "env \<Rightarrow> string \<Rightarrow> string option \<Rightarrow> pydantic_model option \<Rightarrow> string \<Rightarrow> error + (pyval \<times> nat)"
where
  "request_data env prompt text pydantic_model gpt_model =
     (let messages = construct_messages prompt text;
          required_tokens = count_tokens env messages gpt_model;
          data = [(''model'', PStr gpt_model), (''messages'', PList messages)]
      in case pydantic_model of
           None \<Rightarrow> Inr (PDict data, required_tokens)
         | Some m \<Rightarrow>
             (case get_json_schema_from_pydantic m of
                Inl e \<Rightarrow> Inl e
              | Inr response_format \<Rightarrow>
                  Inr (PDict (dict_set ''response_format'' response_format data),
                       required_tokens)))"

section \<open>One call, run on its own\<close>

text \<open>
  What the transport answers to one POST: the connection fails, or a response arrives with
  a status, headers and a body (None when \<^verbatim>\<open>res.json()\<close> cannot decode it).
\<close>

record response =
  status :: nat
  headers :: "(string \<times> string) list"
  body :: "pyval option"

datatype reply = ConnectionFailed | Responded response

text \<open>What a call does to its collaborators, in order.\<close>

datatype event =
    WaitForAvailability "nat option"
  | Acquire
  | Post pyval
  | Warning
  | UpdateFromHeaders "(string \<times> string) list"
  | Release

text \<open>
  \<^verbatim>\<open>_call_openai_chat(data, required_tokens)\<close>, lines 64 to 84, for a call that runs
  with no other call beside it. \<open>replies\<close> are the transport's answers to the successive
  POSTs of this call (when they run out, the transport never answers); \<open>sem\<close> is the
  semaphore's value, the number of free slots. The result is what the call returns or
  raises (None: it never returns), the semaphore's value afterwards and the events in
  order. The retry of line 76 runs inside the three \<^verbatim>\<open>async with\<close> blocks, so the
  slot of the failed attempt is released after the retry has returned.
\<close>

fun priv_call_openai_chat ::
  "pyval \<Rightarrow> nat \<Rightarrow> reply list \<Rightarrow> nat \<Rightarrow> (error + pyval) option \<times> nat \<times> event list"
where
  "priv_call_openai_chat data required_tokens replies sem =
     (if sem = 0 then (None, sem, [WaitForAvailability (Some required_tokens)])
      else
        (case replies of
           [] \<Rightarrow> (None, sem - 1, [WaitForAvailability (Some required_tokens), Acquire, Post data])
         | ConnectionFailed # rest \<Rightarrow>
             (Some (Inl ClientConnectionError), sem,
              [WaitForAvailability (Some required_tokens), Acquire, Post data, Release])
         | Responded res # rest \<Rightarrow>
             if 400 \<le> status res then
               if status res = 429 then
                 (case priv_call_openai_chat data required_tokens rest (sem - 1) of
                    (None, sem', events) \<Rightarrow>
                      (None, sem',
                       [WaitForAvailability (Some required_tokens), Acquire, Post data,
                        Warning, WaitForAvailability None] @ events)
                  | (Some result, sem', events) \<Rightarrow>
                      (Some result, sem' + 1,
                       [WaitForAvailability (Some required_tokens), Acquire, Post data,
                        Warning, WaitForAvailability None] @ events @ [Release]))
               else
                 (Some (Inl (ClientResponseError (status res))), sem,
                  [WaitForAvailability (Some required_tokens), Acquire, Post data, Release])
             else
               (case body res of
                  None \<Rightarrow>
                    (Some (Inl ContentTypeError), sem,
                     [WaitForAvailability (Some required_tokens), Acquire, Post data,
                      UpdateFromHeaders (headers res), Release])
                | Some parsed \<Rightarrow>
                    (Some (Inr parsed), sem,
                     [WaitForAvailability (Some required_tokens), Acquire, Post data,
                      UpdateFromHeaders (headers res), Release]))))"

section \<open>Shaping the result\<close>

definition and_then :: "error + 'a \<Rightarrow> ('a \<Rightarrow> error + 'b) \<Rightarrow> error + 'b" where
  "and_then m f = (case m of Inl e \<Rightarrow> Inl e | Inr x \<Rightarrow> f x)"

text \<open>
  Line 100 and 101: the three tests are made from left to right and the first that holds
  raises \<open>BadResponseException\<close>.
\<close>

definition validate_response :: "pyval \<Rightarrow> error + unit" where
  "validate_response response =
     and_then (py_in ''usage'' response) (\<lambda>has_usage.
       if \<not> has_usage then Inl (BadResponseException response)
       else and_then (py_in ''choices'' response) (\<lambda>has_choices.
         if \<not> has_choices then Inl (BadResponseException response)
         else and_then (getitem response ''choices'') (\<lambda>choices.
           if \<not> truthy choices then Inl (BadResponseException response)
           else Inr ())))"

text \<open>\<^verbatim>\<open>json.loads(result)\<close>: a TypeError for what is not a str.\<close>

definition loads :: "env \<Rightarrow> pyval \<Rightarrow> error + pyval" where
  "loads env result =
     (case result of
        PStr s \<Rightarrow> (case json_loads env s of None \<Rightarrow> Inl JSONDecodeError | Some v \<Rightarrow> Inr v)
      | _ \<Rightarrow> Inl TypeError)"

text \<open>
  The keyword arguments of \<^verbatim>\<open>ChatOutput(id=id, gpt_tokens_used=usage, **result_json)\<close>:
  a TypeError when \<open>result_json\<close> is not a dict or repeats one of the two keywords.
\<close>

definition chat_output_kwargs :: "pyval \<Rightarrow> pyval \<Rightarrow> pyval \<Rightarrow> error + (string \<times> pyval) list" where
  "chat_output_kwargs ident usage result_json =
     (case result_json of
        PDict kvs \<Rightarrow>
          if ''id'' \<in> fst ` set kvs \<or> ''gpt_tokens_used'' \<in> fst ` set kvs then Inl TypeError
          else Inr ([(''id'', ident), (''gpt_tokens_used'', usage)] @ kvs)
      | _ \<Rightarrow> Inl TypeError)"

definition str_validate :: "pyval \<Rightarrow> pyval option" where
  "str_validate v = (case v of PStr s \<Rightarrow> Some v | _ \<Rightarrow> None)"

definition optional_str_validate :: "pyval \<Rightarrow> pyval option" where
  "optional_str_validate v = (case v of PNone \<Rightarrow> Some v | PStr s \<Rightarrow> Some v | _ \<Rightarrow> None)"

definition metadata_names :: "string list" where
  "metadata_names = [''gpt_called_at'', ''gpt_tokens_used'', ''gpt_raw_input'', ''gpt_model'', ''id'']"

text \<open>
  The fields of the class \<^verbatim>\<open>ChatOutput(pydantic_model)\<close> of lines 111 to 121: the
  fields of the given class that \<open>ChatOutput\<close> does not declare again, then the five it
  declares, three of them with a default.
\<close>

definition chat_output_fields ::
  "env \<Rightarrow> pydantic_model \<Rightarrow> string \<Rightarrow> string option \<Rightarrow> string \<Rightarrow> (string \<times> field) list"
where
  "chat_output_fields env pydantic_model prompt text gpt_model =
     filter (\<lambda>(n, f). n \<notin> set metadata_names) (model_fields pydantic_model) @
     [(''gpt_called_at'', Field (datetime_validate env) (Some (datetime_now env))),
      (''gpt_tokens_used'', Field (gpt_tokens_validate env) None),
      (''gpt_raw_input'', Field str_validate (Some (PStr (text_or_prompt text prompt)))),
      (''gpt_model'', Field str_validate (Some (PStr gpt_model))),
      (''id'', Field optional_str_validate None)]"

text \<open>
  Creating an instance: every field takes the validated keyword argument of its name, or
  its default when there is none; a rejected or missing value is a ValidationError.
  Keyword arguments that name no field are ignored.
\<close>

fun init_field :: "(string \<times> pyval) list \<Rightarrow> string \<times> field \<Rightarrow> (string \<times> pyval) option" where
  "init_field kwargs (n, Field validate dflt) =
     (case map_of kwargs n of
        Some v \<Rightarrow> map_option (Pair n) (validate v)
      | None \<Rightarrow> map_option (Pair n) dflt)"

definition model_init ::
  "(string \<times> field) list \<Rightarrow> (string \<times> pyval) list \<Rightarrow> error + (string \<times> pyval) list"
where
  "model_init flds kwargs =
     (case those (map (init_field kwargs) flds) of
        None \<Rightarrow> Inl ValidationError
      | Some vals \<Rightarrow> Inr vals)"

text \<open>
  What \<^verbatim>\<open>call_openai_chat\<close> returns: the pair \<^verbatim>\<open>(result, usage)\<close>, or a
  \<open>ChatOutput\<close> instance given by the values of its fields.
\<close>

datatype chat_result =
    ContentUsage pyval pyval
  | ChatOutput "(string \<times> pyval) list"

definition optional_str :: "string option \<Rightarrow> pyval" where
  "optional_str x = (case x of None \<Rightarrow> PNone | Some s \<Rightarrow> PStr s)"

text \<open>\<^verbatim>\<open>response["choices"][0]["message"]["content"]\<close>, line 104.\<close>

definition first_choice_content :: "pyval \<Rightarrow> error + pyval" where
  "first_choice_content response =
     and_then (getitem response ''choices'') (\<lambda>choices.
     and_then (getitem0 choices) (\<lambda>choice.
     and_then (getitem choice ''message'') (\<lambda>msg.
     getitem msg ''content'')))"

text \<open>
  Lines 100 to 123 of \<^verbatim>\<open>call_openai_chat\<close>, from the parsed response on. The
  parameter \<^verbatim>\<open>id\<close> is written \<open>ident\<close>.
\<close>

definition shape_result ::
  "env \<Rightarrow> string \<Rightarrow> string option \<Rightarrow> pydantic_model option \<Rightarrow> string \<Rightarrow> string option \<Rightarrow>
   pyval \<Rightarrow> error + chat_result"
where
  "shape_result env prompt text pydantic_model gpt_model ident response =
     and_then (validate_response response) (\<lambda>_.
     and_then (getitem response ''usage'') (\<lambda>usage.
     and_then (first_choice_content response) (\<lambda>result.
       case pydantic_model of
         None \<Rightarrow> Inr (ContentUsage result usage)
       | Some m \<Rightarrow>
           and_then (loads env result) (\<lambda>result_json.
           and_then (chat_output_kwargs (optional_str ident) usage result_json) (\<lambda>kwargs.
           and_then (model_init (chat_output_fields env m prompt text gpt_model) kwargs)
             (\<lambda>vals. Inr (ChatOutput vals)))))))"

text \<open>
  \<^verbatim>\<open>call_openai_chat(prompt, text, pydantic_model, gpt_model, id)\<close>, lines 87 to 123,
  run on its own: the outcome (None: the call never returns), the semaphore's value
  afterwards and the events.
\<close>

definition call_openai_chat ::
  "env \<Rightarrow> string \<Rightarrow> string option \<Rightarrow> pydantic_model option \<Rightarrow> string \<Rightarrow> string option \<Rightarrow>
   reply list \<Rightarrow> nat \<Rightarrow> (error + chat_result) option \<times> nat \<times> event list"
where
  "call_openai_chat env prompt text pydantic_model gpt_model ident replies sem =
     (case request_data env prompt text pydantic_model gpt_model of
        Inl e \<Rightarrow> (Some (Inl e), sem, [])
      | Inr (data, required_tokens) \<Rightarrow>
          (case priv_call_openai_chat data required_tokens replies sem of
             (None, sem', events) \<Rightarrow> (None, sem', events)
           | (Some (Inl e), sem', events) \<Rightarrow> (Some (Inl e), sem', events)
           | (Some (Inr response), sem', events) \<Rightarrow>
               (Some (shape_result env prompt text pydantic_model gpt_model ident response),
                sem', events)))"

section \<open>A batch of calls on one event loop\<close>

text \<open>
  One row of \<^verbatim>\<open>input_data\<close>: the keyword arguments \<^verbatim>\<open>text\<close> and
  \<^verbatim>\<open>id\<close> that \<^verbatim>\<open>**row\<close> passes to the call made for it.
\<close>

record row =
  row_text :: "string option"
  row_id :: "string option"

text \<open>
  What a batch is run with: the arguments of \<^verbatim>\<open>async_call_open_ai_chat\<close> and the
  collaborators outside \<^verbatim>\<open>chat.py\<close>. \<open>transport i a\<close> is the answer to the POST
  number \<open>a\<close> (from 0) of the call for row \<open>i\<close>; \<open>capacity\<close> is the value
  \<^verbatim>\<open>u.init_openai\<close> gives the semaphore.
\<close>

record batch =
  environment :: env
  prompt :: string
  input_data :: "row list"
  pydantic_model :: "pydantic_model option"
  gpt_model :: string
  transport :: "nat \<Rightarrow> nat \<Rightarrow> reply"
  capacity :: nat
  split_valid_and_invalid_records ::
    "(error + chat_result) list \<Rightarrow> pydantic_model \<Rightarrow>
     (error + chat_result) list \<times> (error + chat_result) list"

text \<open>
  Where the coroutine of one call stands. The number \<open>d\<close> counts the retries so far: the
  coroutine is in the invocation of \<^verbatim>\<open>_call_openai_chat\<close> nested \<open>d\<close> deep, inside
  the \<^verbatim>\<open>async with\<close> blocks of the \<open>d\<close> invocations around it.
  \<^item> \<open>Created\<close>: not yet run.
  \<^item> \<open>AwaitBudget d\<close>: at line 65, in \<^verbatim>\<open>wait_for_availability(required_tokens)\<close>.
  \<^item> \<open>AwaitGate d\<close>: at line 66, entering the semaphore.
  \<^item> \<open>Sending d\<close>: past line 66 with a slot, about to POST (lines 67 and 68).
  \<^item> \<open>AwaitReply d\<close>: at line 68, the POST is sent and not answered.
  \<^item> \<open>AwaitRetryBudget d\<close>: at line 75, in \<^verbatim>\<open>wait_for_availability()\<close>.
  \<^item> \<open>AwaitBody d\<close>: at line 84, in \<^verbatim>\<open>res.json()\<close>.
  \<^item> \<open>Leaving n r\<close>: \<open>r\<close> is returned or raised through the \<^verbatim>\<open>async with\<close>
    blocks, \<open>n\<close> of which are still to be left.
  \<^item> \<open>Done v\<close>: the call has returned or raised \<open>v\<close>.
\<close>

datatype pc =
    Created
  | AwaitBudget nat
  | AwaitGate nat
  | Sending nat
  | AwaitReply nat
  | AwaitRetryBudget nat
  | AwaitBody nat
  | Leaving nat "error + pyval"
  | Done "error + chat_result"

text \<open>
  Modelled from the spec: the semaphore \<^verbatim>\<open>u.RATE_LIMITER_SEMAPHORE\<close>, which
  \<^verbatim>\<open>async_openai.utils\<close> creates outside \<^verbatim>\<open>chat.py\<close>. It is the concurrency
  gate of the spec: a counter of free slots (\<^verbatim>\<open>_value\<close>, read at line 133) that starts
  at the capacity; entering it suspends the call while the counter is 0 and then takes one
  from it, leaving it adds one. With it the state of a batch is the counter and the place
  of every call.
\<close>

record state =
  sem_value :: nat
  pcs :: "pc list"

definition init :: "batch \<Rightarrow> state" where
  "init b = \<lparr>sem_value = capacity b, pcs = replicate (length (input_data b)) Created\<rparr>"

text \<open>Lines 98 to 123 for row \<open>i\<close>, once \<^verbatim>\<open>_call_openai_chat\<close> has returned or raised.\<close>

definition finish :: "batch \<Rightarrow> nat \<Rightarrow> error + pyval \<Rightarrow> error + chat_result" where
  "finish b i r =
     (case r of
        Inl e \<Rightarrow> Inl e
      | Inr response \<Rightarrow>
          shape_result (environment b) (prompt b) (row_text (input_data b ! i)) (pydantic_model b)
            (gpt_model b) (row_id (input_data b ! i)) response)"

text \<open>
  One move of the call for row \<open>i\<close>, from one suspension point to the next. None: the
  call cannot move (it is done, or it waits for a slot and the semaphore is at 0).
\<close>

definition step_task :: "batch \<Rightarrow> nat \<Rightarrow> state \<Rightarrow> state option" where
  "step_task b i st =
     (if length (pcs st) \<le> i then None
      else
        (case pcs st ! i of
           Created \<Rightarrow>
             (case request_data (environment b) (prompt b) (row_text (input_data b ! i))
                     (pydantic_model b) (gpt_model b) of
                Inl e \<Rightarrow> Some (st\<lparr>pcs := (pcs st)[i := Done (Inl e)]\<rparr>)
              | Inr data_tokens \<Rightarrow> Some (st\<lparr>pcs := (pcs st)[i := AwaitBudget 0]\<rparr>))
         | AwaitBudget d \<Rightarrow> Some (st\<lparr>pcs := (pcs st)[i := AwaitGate d]\<rparr>)
         | AwaitGate d \<Rightarrow>
             if sem_value st = 0 then None
             else Some (st\<lparr>sem_value := sem_value st - 1, pcs := (pcs st)[i := Sending d]\<rparr>)
         | Sending d \<Rightarrow> Some (st\<lparr>pcs := (pcs st)[i := AwaitReply d]\<rparr>)
         | AwaitReply d \<Rightarrow>
             (case transport b i d of
                ConnectionFailed \<Rightarrow>
                  Some (st\<lparr>pcs := (pcs st)[i := Leaving (Suc d) (Inl ClientConnectionError)]\<rparr>)
              | Responded res \<Rightarrow>
                  if 400 \<le> status res then
                    if status res = 429 then
                      Some (st\<lparr>pcs := (pcs st)[i := AwaitRetryBudget d]\<rparr>)
                    else
                      Some (st\<lparr>pcs := (pcs st)
                              [i := Leaving (Suc d) (Inl (ClientResponseError (status res)))]\<rparr>)
                  else Some (st\<lparr>pcs := (pcs st)[i := AwaitBody d]\<rparr>))
         | AwaitRetryBudget d \<Rightarrow> Some (st\<lparr>pcs := (pcs st)[i := AwaitBudget (Suc d)]\<rparr>)
         | AwaitBody d \<Rightarrow>
             (case transport b i d of
                ConnectionFailed \<Rightarrow>
                  Some (st\<lparr>pcs := (pcs st)[i := Leaving (Suc d) (Inl ClientConnectionError)]\<rparr>)
              | Responded res \<Rightarrow>
                  (case body res of
                     None \<Rightarrow> Some (st\<lparr>pcs := (pcs st)[i := Leaving (Suc d) (Inl ContentTypeError)]\<rparr>)
                   | Some parsed \<Rightarrow>
                       Some (st\<lparr>pcs := (pcs st)[i := Leaving (Suc d) (Inr parsed)]\<rparr>)))
         | Leaving n r \<Rightarrow>
             (case n of
                0 \<Rightarrow> Some (st\<lparr>pcs := (pcs st)[i := Done (finish b i r)]\<rparr>)
              | Suc m \<Rightarrow>
                  Some (st\<lparr>sem_value := sem_value st + 1, pcs := (pcs st)[i := Leaving m r]\<rparr>))
         | Done v \<Rightarrow> None))"

text \<open>
  The event loop resumes one call after the other, in an order the program does not
  choose: a schedule is the list of the rows whose calls move. None: the schedule asks a
  call to move that cannot.
\<close>

fun exec :: "batch \<Rightarrow> nat list \<Rightarrow> state \<Rightarrow> state option" where
  "exec b [] st = Some st"
| "exec b (i # sched) st =
     (case step_task b i st of None \<Rightarrow> None | Some st' \<Rightarrow> exec b sched st')"





section \<open>Notions the properties are stated with\<close>

text \<open>A reply that makes the call retry: a response with status 429.\<close>

definition throttled :: "reply \<Rightarrow> bool" where
  "throttled r = (case r of ConnectionFailed \<Rightarrow> False | Responded res \<Rightarrow> status res = 429)"

text \<open>What an attempt returns or raises on a reply that is not throttled.\<close>

definition settle :: "reply \<Rightarrow> error + pyval" where
  "settle r =
     (case r of
        ConnectionFailed \<Rightarrow> Inl ClientConnectionError
      | Responded res \<Rightarrow>
          if 400 \<le> status res then Inl (ClientResponseError (status res))
          else (case body res of None \<Rightarrow> Inl ContentTypeError | Some parsed \<Rightarrow> Inr parsed))"

text \<open>The events of an attempt up to its POST, and after a reply that is not throttled.\<close>

definition attempt :: "pyval \<Rightarrow> nat \<Rightarrow> event list" where
  "attempt data required_tokens =
     [WaitForAvailability (Some required_tokens), Acquire, Post data]"

definition after_reply :: "reply \<Rightarrow> event list" where
  "after_reply r =
     (case r of
        ConnectionFailed \<Rightarrow> []
      | Responded res \<Rightarrow> if 400 \<le> status res then [] else [UpdateFromHeaders (headers res)])"

text \<open>The slots a call holds after a sequence of its events.\<close>

definition held :: "event list \<Rightarrow> nat" where
  "held events = count_list events Acquire - count_list events Release"











section \<open>Concrete inputs\<close>

text \<open>
  Inputs the properties are evaluated on. The collaborators: a token count of 7 per message,
  a decoder that knows the one JSON text used below, a fixed clock, and validations that
  accept any datetime and any dict of token counts.
\<close>

definition paris_json :: string where
  \<open>paris_json = ''{"text":"Paris"}''\<close>

definition example_env :: env where
  "example_env =
     \<lparr>count_tokens = (\<lambda>messages model. 7 * length messages),
      json_loads = (\<lambda>s. if s = paris_json
                          then Some (PDict [(''text'', PStr ''Paris'')]) else None),
      datetime_now = PStr ''2024-05-01T12:00:00'',
      datetime_validate = (\<lambda>v. Some v),
      gpt_tokens_validate = (\<lambda>v. case v of PDict kvs \<Rightarrow> Some v | _ \<Rightarrow> None)\<rparr>"

text \<open>
  A model class with the one field \<^verbatim>\<open>text: str\<close>:
  \<^verbatim>\<open>class Answer(BaseModel): text: str; class Config: description = "An answer"\<close>.
\<close>

definition answer_model :: pydantic_model where
  "answer_model =
     \<lparr>cls_name = ''Answer'',
      config_description = Some ''An answer'',
      model_json_schema =
        [(''properties'', PDict [(''text'', PDict [(''title'', PStr ''Text''),
                                                    (''type'', PStr ''string'')])]),
         (''required'', PList [PStr ''text'']),
         (''title'', PStr ''Answer''),
         (''type'', PStr ''object'')],
      model_fields = [(''text'', Field str_validate None)]\<rparr>"

definition example_usage :: pyval where
  "example_usage =
     PDict [(''prompt_tokens'', PInt 14), (''completion_tokens'', PInt 6),
            (''total_tokens'', PInt 20)]"

text \<open>A response body whose first choice has the given content.\<close>

definition completion :: "pyval \<Rightarrow> pyval" where
  "completion content =
     PDict [(''id'', PStr ''chatcmpl-1''),
            (''choices'', PList [PDict [(''index'', PInt 0),
                                        (''message'', PDict [(''role'', PStr ''assistant''),
                                                             (''content'', content)])]]),
            (''usage'', example_usage)]"

definition ok_response :: "pyval \<Rightarrow> response" where
  "ok_response parsed =
     \<lparr>status = 200, headers = [(''x-ratelimit-remaining-requests'', ''9999'')],
      body = Some parsed\<rparr>"

definition too_many_requests :: response where
  "too_many_requests = \<lparr>status = 429, headers = [], body = None\<rparr>"

definition server_error :: response where
  "server_error = \<lparr>status = 500, headers = [], body = None\<rparr>"

text \<open>
  A content that carries an entry \<^verbatim>\<open>gpt_raw_input\<close> of its own, and collaborators
  whose decoder knows it.
\<close>

definition override_json :: string where
  \<open>override_json = ''{"text":"Paris","gpt_raw_input":"zzz"}''\<close>

definition override_env :: env where
  "override_env =
     example_env
       \<lparr>json_loads := (\<lambda>s. if s = override_json
                           then Some (PDict [(''text'', PStr ''Paris''),
                                             (''gpt_raw_input'', PStr ''zzz'')])
                           else None)\<rparr>"




section \<open>The message sequence\<close>

lemma construct_messages_absent:
  "construct_messages p None = [message ''user'' p]"
  by (simp add: construct_messages_def text_or_prompt_def)

lemma construct_messages_nonempty:
  "t \<noteq> [] \<Longrightarrow> construct_messages p (Some t) = [message ''system'' p, message ''user'' t]"
  by (simp add: construct_messages_def text_or_prompt_def)

text \<open>
  C5. The claim: with the text absent the sequence is one user message holding the prompt;
  with the text present it is a system message holding the prompt, then a user message
  holding the text. At the present but empty text \<^verbatim>\<open>""\<close> the source's
  \<^verbatim>\<open>text or prompt\<close> puts the prompt, not the text, into the user message: the two
  tests of lines 38 and 41 disagree on whether the empty string is a text.
\<close>

theorem C5_empty_text_user_message:
  "construct_messages ''Summarise'' (Some '''')
     = [message ''system'' ''Summarise'', message ''user'' ''Summarise'']
   \<and> construct_messages ''Summarise'' (Some '''')
     \<noteq> [message ''system'' ''Summarise'', message ''user'' '''']"
  by (simp add: construct_messages_def text_or_prompt_def message_def)

section \<open>One call on its own: retries\<close>

declare priv_call_openai_chat.simps [simp del]

lemma priv_call_settled:
  assumes "\<not> throttled r" and "0 < sem"
  shows "priv_call_openai_chat data n (r # rest) sem =
           (Some (settle r), sem, attempt data n @ after_reply r @ [Release])"
  using assms
  by (subst priv_call_openai_chat.simps)
     (auto simp: throttled_def settle_def attempt_def after_reply_def
           split: reply.splits option.splits)

lemma priv_call_throttled:
  assumes "throttled r" and "0 < sem"
  shows "priv_call_openai_chat data n (r # rest) sem =
           (case priv_call_openai_chat data n rest (sem - 1) of
              (None, sem', events) \<Rightarrow>
                (None, sem', attempt data n @ [Warning, WaitForAvailability None] @ events)
            | (Some result, sem', events) \<Rightarrow>
                (Some result, sem' + 1,
                 attempt data n @ [Warning, WaitForAvailability None] @ events @ [Release]))"
  using assms
  by (subst priv_call_openai_chat.simps)
     (auto simp: throttled_def attempt_def split: reply.splits option.splits prod.splits)


lemma priv_call_retries:
  assumes "list_all throttled pre" and "\<not> throttled r" and "length pre < sem"
  shows "priv_call_openai_chat data n (pre @ r # rest) sem =
           (Some (settle r), sem,
            concat (replicate (length pre) (attempt data n @ [Warning, WaitForAvailability None]))
            @ attempt data n @ after_reply r @ replicate (Suc (length pre)) Release)"
  using assms
proof (induction pre arbitrary: sem)
  case Nil
  then show ?case by (simp add: priv_call_settled)
next
  case (Cons p pre)
  from Cons.prems have p: "throttled p" and pre: "list_all throttled pre"
    and sem: "0 < sem" "length pre < sem - 1"
    by auto
  have rel: "replicate (length pre) Release @ [Release] = Release # replicate (length pre) Release"
    by (simp add: replicate_append_same)
  have ih: "priv_call_openai_chat data n (pre @ r # rest) (sem - 1) =
           (Some (settle r), sem - 1,
            concat (replicate (length pre) (attempt data n @ [Warning, WaitForAvailability None]))
            @ attempt data n @ after_reply r @ replicate (Suc (length pre)) Release)"
    by (rule Cons.IH [OF pre Cons.prems(2) sem(2)])
  have "priv_call_openai_chat data n ((p # pre) @ r # rest) sem =
        (Some (settle r), sem - 1 + 1,
         attempt data n @ [Warning, WaitForAvailability None] @
         (concat (replicate (length pre) (attempt data n @ [Warning, WaitForAvailability None]))
            @ attempt data n @ after_reply r @ replicate (Suc (length pre)) Release) @ [Release])"
    using priv_call_throttled [OF p sem(1), of data n "pre @ r # rest"]
    by (simp only: append_Cons ih prod.case option.case)
  then show ?case using sem(1) rel by simp
qed



lemma priv_call_posts:
  "Post d \<in> set (snd (snd (priv_call_openai_chat data n replies sem))) \<Longrightarrow> d = data"
proof (induction data n replies sem rule: priv_call_openai_chat.induct)
  case (1 data n replies sem)
  show ?case
  proof (cases "sem = 0")
    case True
    with "1.prems" show ?thesis by (subst (asm) priv_call_openai_chat.simps) simp
  next
    case sem: False
    show ?thesis
    proof (cases replies)
      case Nil
      with sem "1.prems" show ?thesis by (subst (asm) priv_call_openai_chat.simps) simp
    next
      case (Cons r rest)
      show ?thesis
      proof (cases "throttled r")
        case False
        with sem Cons "1.prems" show ?thesis
          by (auto simp: priv_call_settled attempt_def after_reply_def split: reply.splits if_splits)
      next
        case True
        then obtain res where r: "r = Responded res" and st: "status res = 429"
          by (auto simp: throttled_def split: reply.splits)
        have ih: "Post d \<in> set (snd (snd (priv_call_openai_chat data n rest (sem - 1)))) \<Longrightarrow> d = data"
          using "1.IH" [OF sem Cons r _ st] st by simp
        from "1.prems" sem Cons True show ?thesis
          using ih
          by (auto simp: priv_call_throttled attempt_def split: prod.splits option.splits)
      qed
    qed
  qed
qed

lemma call_openai_chat_retries:
  assumes "request_data env p t m g = Inr (data, n)"
    and "list_all throttled pre" and "\<not> throttled r" and "length pre < sem"
  shows "call_openai_chat env p t m g i (pre @ r # rest) sem =
           (Some (case settle r of Inl e \<Rightarrow> Inl e
                  | Inr response \<Rightarrow> shape_result env p t m g i response), sem,
            concat (replicate (length pre) (attempt data n @ [Warning, WaitForAvailability None]))
            @ attempt data n @ after_reply r @ replicate (Suc (length pre)) Release)"
  using assms
  by (simp add: call_openai_chat_def priv_call_retries split: sum.splits)

text \<open>
  C3. A call whose first reply has status 429 and whose second reply has a status below 400,
  run with at least two free slots (the failed attempt keeps its slot while the retry takes
  one), returns what the call returns whose only reply is that second one. Its events are
  the failed attempt, then the warning and one \<^verbatim>\<open>wait_for_availability()\<close>, then
  the events of the immediate success, then the release of the failed attempt's slot.
\<close>

theorem C3_throttle_retry:
  assumes "request_data env p t m g = Inr (data, n)"
    and "status r1 = 429" and "status r2 < 400" and "2 \<le> sem"
  shows "fst (call_openai_chat env p t m g i (Responded r1 # Responded r2 # rest) sem)
           = fst (call_openai_chat env p t m g i (Responded r2 # rest') sem)
       \<and> fst (call_openai_chat env p t m g i (Responded r2 # rest') sem) \<noteq> None
       \<and> snd (snd (call_openai_chat env p t m g i (Responded r1 # Responded r2 # rest) sem))
           = attempt data n @ [Warning, WaitForAvailability None]
             @ snd (snd (call_openai_chat env p t m g i (Responded r2 # rest') sem)) @ [Release]"
proof -
  have r1: "list_all throttled [Responded r1]" and r2: "\<not> throttled (Responded r2)"
    using assms(2,3) by (simp_all add: throttled_def)
  have one: "length [Responded r1] < sem" and none: "length ([] :: reply list) < sem"
    using assms(4) by simp_all
  have retry: "call_openai_chat env p t m g i ([Responded r1] @ Responded r2 # rest) sem =
      (Some (case settle (Responded r2) of Inl e \<Rightarrow> Inl e
             | Inr response \<Rightarrow> shape_result env p t m g i response), sem,
       concat (replicate (length [Responded r1]) (attempt data n @ [Warning, WaitForAvailability None]))
       @ attempt data n @ after_reply (Responded r2) @ replicate (Suc (length [Responded r1])) Release)"
    by (rule call_openai_chat_retries [OF assms(1) r1 r2 one])
  have direct: "call_openai_chat env p t m g i ([] @ Responded r2 # rest') sem =
      (Some (case settle (Responded r2) of Inl e \<Rightarrow> Inl e
             | Inr response \<Rightarrow> shape_result env p t m g i response), sem,
       concat (replicate (length ([] :: reply list)) (attempt data n @ [Warning, WaitForAvailability None]))
       @ attempt data n @ after_reply (Responded r2) @ replicate (Suc (length ([] :: reply list))) Release)"
    by (rule call_openai_chat_retries [OF assms(1) _ r2 none]) simp
  from retry direct show ?thesis by simp
qed

lemma held_retries:
  "held (concat (replicate k (attempt data n @ [Warning, WaitForAvailability None]))
         @ attempt data n) = Suc k"
  by (induction k) (simp_all add: held_def attempt_def)

lemma take_retries:
  assumes "k \<le> d"
  shows "take (5 * k + 3)
           (concat (replicate d (attempt data n @ [Warning, WaitForAvailability None]))
            @ attempt data n @ rest)
         = concat (replicate k (attempt data n @ [Warning, WaitForAvailability None]))
           @ attempt data n"
proof -
  let ?blk = "attempt data n @ [Warning, WaitForAvailability None]"
  have len: "length (concat (replicate k ?blk)) = 5 * k"
    by (induction k) (simp_all add: attempt_def)
  have split: "concat (replicate d ?blk) = concat (replicate k ?blk) @ concat (replicate (d - k) ?blk)"
    using assms by (metis concat_append le_add_diff_inverse replicate_add)
  have tail: "take 3 (concat (replicate j ?blk) @ attempt data n @ rest) = attempt data n" for j
    by (cases j) (simp_all add: attempt_def)
  have "take (length (concat (replicate k ?blk)) + 3)
          (concat (replicate k ?blk) @ (concat (replicate (d - k) ?blk) @ attempt data n @ rest))
        = concat (replicate k ?blk) @ take 3 (concat (replicate (d - k) ?blk) @ attempt data n @ rest)"
    by (simp del: concat_replicate_trivial)
  then show ?thesis
    by (simp only: split len tail append_assoc add.commute)
qed


theorem C3_throttle_retry_witness:
  "fst (call_openai_chat example_env ''Capital of France?'' None None ''gpt-4o-mini'' None
          [Responded too_many_requests, Responded (ok_response (completion (PStr ''Paris'')))] 2)
     = Some (Inr (ContentUsage (PStr ''Paris'') example_usage))
   \<and> snd (snd (call_openai_chat example_env ''Capital of France?'' None None ''gpt-4o-mini'' None
          [Responded too_many_requests, Responded (ok_response (completion (PStr ''Paris'')))] 2))
     = [WaitForAvailability (Some 7), Acquire,
        Post (PDict [(''model'', PStr ''gpt-4o-mini''),
                     (''messages'', PList [message ''user'' ''Capital of France?''])]),
        Warning, WaitForAvailability None,
        WaitForAvailability (Some 7), Acquire,
        Post (PDict [(''model'', PStr ''gpt-4o-mini''),
                     (''messages'', PList [message ''user'' ''Capital of France?''])]),
        UpdateFromHeaders [(''x-ratelimit-remaining-requests'', ''9999'')], Release,
        Release]"
proof -
  let ?data = "PDict [(''model'', PStr ''gpt-4o-mini''),
                      (''messages'', PList [message ''user'' ''Capital of France?''])]"
  have h1: "request_data example_env ''Capital of France?'' None None ''gpt-4o-mini''
              = Inr (?data, 7)"
    by (simp add: request_data_def example_env_def construct_messages_def text_or_prompt_def)
  have h2: "status too_many_requests = 429"
    by (simp add: too_many_requests_def)
  have h3: "status (ok_response (completion (PStr ''Paris''))) < 400"
    by (simp add: ok_response_def)
  have h4: "(2::nat) \<le> 2"
    by simp
  have direct:
    "call_openai_chat example_env ''Capital of France?'' None None ''gpt-4o-mini'' None
       [Responded (ok_response (completion (PStr ''Paris'')))] 2
     = (Some (Inr (ContentUsage (PStr ''Paris'') example_usage)), 2,
        [WaitForAvailability (Some 7), Acquire, Post ?data,
         UpdateFromHeaders [(''x-ratelimit-remaining-requests'', ''9999'')], Release])"
    by (simp add: call_openai_chat_def h1 priv_call_openai_chat.simps ok_response_def
          shape_result_def validate_response_def first_choice_content_def and_then_def
          completion_def)
  from C3_throttle_retry [OF h1 h2 h3 h4, of None "[]" "[]"] direct
  show ?thesis
    by (simp add: attempt_def)
qed

section \<open>One call on its own: the slots it holds\<close>

lemma count_retries:
  "count_list (concat (replicate k (attempt data n @ [Warning, WaitForAvailability None]))) Acquire = k"
  "count_list (concat (replicate k (attempt data n @ [Warning, WaitForAvailability None]))) Release = 0"
  by (induction k) (simp_all add: attempt_def)

lemma release_not_in_retries:
  "Release \<notin> set (concat (replicate k (attempt data n @ [Warning, WaitForAvailability None]))
                    @ attempt data n)"
  by (induction k) (auto simp: attempt_def)

lemma count_attempt:
  "count_list (attempt data n) Acquire = 1" "count_list (attempt data n) Release = 0"
  by (simp_all add: attempt_def)

lemma count_releases:
  "count_list (replicate k Release) Release = k" "count_list (replicate k Release) Acquire = 0"
  by (induction k) simp_all

lemma count_after_reply:
  "count_list (after_reply r) Acquire = 0" "count_list (after_reply r) Release = 0"
  by (simp_all add: after_reply_def split: reply.splits)

text \<open>
  C9. A call that is throttled \<open>length pre\<close> times and then gets another reply, run with
  enough free slots: every retry runs its wait and takes a slot inside the attempts before
  it, so after the POST of retry \<open>k\<close> the call holds \<open>k + 1\<close> slots and nothing is released
  before the last POST; the releases follow at the end, one for each slot taken, and the
  semaphore is back at its value.
\<close>

theorem C9_nested_slots:
  assumes "request_data env p t m g = Inr (data, n)"
    and "list_all throttled pre" and "\<not> throttled r" and "length pre < sem"
    and "call_openai_chat env p t m g i (pre @ r # rest) sem = (result, sem', events)"
  shows "events =
           concat (replicate (length pre) (attempt data n @ [Warning, WaitForAvailability None]))
           @ attempt data n @ after_reply r @ replicate (Suc (length pre)) Release
       \<and> (\<forall>k \<le> length pre. held (take (5 * k + 3) events) = Suc k)
       \<and> Release \<notin> set (take (5 * length pre + 3) events)
       \<and> count_list events Acquire = Suc (length pre)
       \<and> count_list events Release = Suc (length pre)
       \<and> sem' = sem \<and> result \<noteq> None"
proof -
  let ?blk = "attempt data n @ [Warning, WaitForAvailability None]"
  let ?tail = "after_reply r @ replicate (Suc (length pre)) Release"
  from call_openai_chat_retries [OF assms(1-4), of i rest] assms(5)
  have ev: "events = concat (replicate (length pre) ?blk) @ attempt data n @ ?tail"
    and sem: "sem' = sem" and res: "result \<noteq> None"
    by auto
  have prefix: "take (5 * k + 3) events = concat (replicate k ?blk) @ attempt data n"
    if "k \<le> length pre" for k
    unfolding ev using that by (rule take_retries)
  have a: "\<forall>k \<le> length pre. held (take (5 * k + 3) events) = Suc k"
    by (simp add: prefix held_retries)
  have b: "Release \<notin> set (take (5 * length pre + 3) events)"
    using release_not_in_retries [of "length pre" data n] by (simp add: prefix)
  have c: "count_list events Acquire = Suc (length pre)"
    by (simp add: ev count_retries count_after_reply count_releases count_attempt del: replicate_Suc)
  have d: "count_list events Release = Suc (length pre)"
    by (simp add: ev count_retries count_after_reply count_releases count_attempt del: replicate_Suc)
  from ev a b c d sem res show ?thesis by blast
qed


theorem C9_nested_slots_witness:
  "held (take 13 (snd (snd (call_openai_chat example_env ''Capital of France?'' None None
       ''gpt-4o-mini'' None
       [Responded too_many_requests, Responded too_many_requests,
        Responded (ok_response (completion (PStr ''Paris'')))] 3)))) = 3
   \<and> count_list (snd (snd (call_openai_chat example_env ''Capital of France?'' None None
       ''gpt-4o-mini'' None
       [Responded too_many_requests, Responded too_many_requests,
        Responded (ok_response (completion (PStr ''Paris'')))] 3))) Release = 3
   \<and> fst (snd (call_openai_chat example_env ''Capital of France?'' None None
       ''gpt-4o-mini'' None
       [Responded too_many_requests, Responded too_many_requests,
        Responded (ok_response (completion (PStr ''Paris'')))] 3)) = 3"
proof -
  let ?data = "PDict [(''model'', PStr ''gpt-4o-mini''),
                      (''messages'', PList [message ''user'' ''Capital of France?''])]"
  let ?pre = "[Responded too_many_requests, Responded too_many_requests]"
  let ?r = "Responded (ok_response (completion (PStr ''Paris'')))"
  obtain result sem' events where run:
    "call_openai_chat example_env ''Capital of France?'' None None ''gpt-4o-mini'' None
       (?pre @ ?r # []) 3 = (result, sem', events)"
    using prod_cases3 by blast
  have h1: "request_data example_env ''Capital of France?'' None None ''gpt-4o-mini''
              = Inr (?data, 7)"
    by (simp add: request_data_def example_env_def construct_messages_def text_or_prompt_def)
  have h2: "list_all throttled ?pre"
    by (simp add: throttled_def too_many_requests_def)
  have h3: "\<not> throttled ?r"
    by (simp add: throttled_def ok_response_def)
  have h4: "length ?pre < 3"
    by simp
  from C9_nested_slots [OF h1 h2 h3 h4 run]
  have all: "\<forall>k \<le> length ?pre. held (take (5 * k + 3) events) = Suc k"
    and rel: "count_list events Release = Suc (length ?pre)" and sem: "sem' = 3"
    by blast+
  from all [rule_format, of 2] have "held (take 13 events) = 3"
    by simp
  with rel sem run show ?thesis by simp
qed

section \<open>The request body\<close>

lemma dict_set_lookup:
  "map_of (dict_set k v kvs) k = Some v"
  "k' \<noteq> k \<Longrightarrow> map_of (dict_set k v kvs) k' = map_of kvs k'"
  by (induction kvs) auto

lemma call_openai_chat_events:
  assumes "request_data env p t m g = Inr (data, n)"
  shows "snd (snd (call_openai_chat env p t m g i replies sem))
           = snd (snd (priv_call_openai_chat data n replies sem))"
  using assms
  by (simp add: call_openai_chat_def split: prod.splits option.splits sum.splits)

lemma call_openai_chat_posts:
  assumes "Post d \<in> set (snd (snd (call_openai_chat env p t m g i replies sem)))"
  shows "\<exists>n. request_data env p t m g = Inr (d, n)"
proof (cases "request_data env p t m g")
  case (Inl e)
  with assms show ?thesis by (simp add: call_openai_chat_def)
next
  case (Inr dn)
  obtain data n where dn: "dn = (data, n)" by (cases dn)
  from assms have "Post d \<in> set (snd (snd (priv_call_openai_chat data n replies sem)))"
    using call_openai_chat_events [of env p t m g data n i replies sem] Inr dn by simp
  then have "d = data" by (rule priv_call_posts)
  with Inr dn show ?thesis by simp
qed

text \<open>
  C6. Every request body a call POSTs, on the first attempt and on every retry: without a
  model class it is the model name and the messages and has no \<^verbatim>\<open>response_format\<close>;
  with a model class it has, after them, the \<^verbatim>\<open>response_format\<close> of type
  \<^verbatim>\<open>json_schema\<close> with the class's name, its description, its JSON schema with
  \<^verbatim>\<open>additionalProperties\<close> set to false, and \<^verbatim>\<open>strict\<close> true.
\<close>

theorem C6_response_format:
  assumes "Post d \<in> set (snd (snd (call_openai_chat env p t m g i replies sem)))"
  shows "(m = None \<longrightarrow>
            d = PDict [(''model'', PStr g), (''messages'', PList (construct_messages p t))]
          \<and> py_in ''response_format'' d = Inr False)
       \<and> (\<forall>c. m = Some c \<longrightarrow>
            (\<exists>description. config_description c = Some description
             \<and> d = PDict [(''model'', PStr g), (''messages'', PList (construct_messages p t)),
                   (''response_format'',
                    PDict [(''type'', PStr ''json_schema''),
                           (''json_schema'',
                            PDict [(''name'', PStr (cls_name c)),
                                   (''description'', PStr description),
                                   (''schema'', PDict (dict_set ''additionalProperties''
                                                        (PBool False) (model_json_schema c))),
                                   (''strict'', PBool True)])])]))"
proof -
  from call_openai_chat_posts [OF assms] obtain n where "request_data env p t m g = Inr (d, n)" ..
  then show ?thesis
    by (auto simp: request_data_def get_json_schema_from_pydantic_def Let_def
             split: option.splits sum.splits)
qed

theorem C6_response_format_witness:
  "Post (PDict [(''model'', PStr ''gpt-4o-mini''),
                (''messages'', PList (construct_messages ''Capital of France?'' None)),
                (''response_format'',
                 PDict [(''type'', PStr ''json_schema''),
                        (''json_schema'',
                         PDict [(''name'', PStr ''Answer''),
                                (''description'', PStr ''An answer''),
                                (''schema'', PDict (dict_set ''additionalProperties''
                                                     (PBool False) (model_json_schema answer_model))),
                                (''strict'', PBool True)])])])
     \<in> set (snd (snd (call_openai_chat example_env ''Capital of France?'' None (Some answer_model)
                ''gpt-4o-mini'' None [Responded server_error] 1)))"
proof -
  let ?run = "call_openai_chat example_env ''Capital of France?'' None (Some answer_model)
                ''gpt-4o-mini'' None [Responded server_error] 1"
  have "\<exists>d. Post d \<in> set (snd (snd ?run))"
    by (simp add: call_openai_chat_def request_data_def get_json_schema_from_pydantic_def
          answer_model_def priv_call_openai_chat.simps server_error_def Let_def)
  then obtain d where d: "Post d \<in> set (snd (snd ?run))" ..
  from C6_response_format [OF d]
  have "d = PDict [(''model'', PStr ''gpt-4o-mini''),
                (''messages'', PList (construct_messages ''Capital of France?'' None)),
                (''response_format'',
                 PDict [(''type'', PStr ''json_schema''),
                        (''json_schema'',
                         PDict [(''name'', PStr ''Answer''),
                                (''description'', PStr ''An answer''),
                                (''schema'', PDict (dict_set ''additionalProperties''
                                                     (PBool False) (model_json_schema answer_model))),
                                (''strict'', PBool True)])])]"
    by (simp add: answer_model_def)
  with d show ?thesis by simp
qed

section \<open>Validation of the response\<close>

lemma getitem_not_bad: "getitem v k \<noteq> Inl (BadResponseException x)"
  by (cases v) (auto split: option.splits)

lemma getitem0_not_bad: "getitem0 v \<noteq> Inl (BadResponseException x)"
  by (cases v rule: getitem0.cases) auto

lemma first_choice_content_not_bad:
  "first_choice_content response \<noteq> Inl (BadResponseException x)"
  by (auto simp: first_choice_content_def and_then_def getitem_not_bad getitem0_not_bad
           split: sum.splits)

lemma loads_not_bad: "loads env v \<noteq> Inl (BadResponseException x)"
  by (auto simp: loads_def split: pyval.splits option.splits)

lemma chat_output_kwargs_not_bad: "chat_output_kwargs i u v \<noteq> Inl (BadResponseException x)"
  by (auto simp: chat_output_kwargs_def split: pyval.splits)

lemma model_init_not_bad: "model_init flds kwargs \<noteq> Inl (BadResponseException x)"
  by (auto simp: model_init_def split: option.splits)

lemma shape_result_bad_response:
  "shape_result env p t m g i response = Inl (BadResponseException x)
     \<longleftrightarrow> validate_response response = Inl (BadResponseException x)"
proof (cases "validate_response response")
  case (Inl e)
  then show ?thesis by (simp add: shape_result_def and_then_def)
next
  case (Inr u)
  then show ?thesis
    using getitem_not_bad [of response "''usage''" x]
      first_choice_content_not_bad [of response x]
      loads_not_bad [of env _ x] chat_output_kwargs_not_bad [of _ _ _ x]
      model_init_not_bad [of _ _ x]
    by (auto simp: shape_result_def and_then_def split: sum.splits option.splits)
qed

lemma validate_response_dict:
  "validate_response (PDict kvs) =
     (if ''usage'' \<notin> fst ` set kvs \<or> ''choices'' \<notin> fst ` set kvs
         \<or> (\<exists>v. map_of kvs ''choices'' = Some v \<and> \<not> truthy v)
      then Inl (BadResponseException (PDict kvs)) else Inr ())"
  by (auto simp: validate_response_def and_then_def map_of_eq_None_iff split: option.splits)

lemma py_in_not_bad: "py_in k v \<noteq> Inl (BadResponseException x)"
  by (cases v) auto

lemma validate_response_payload:
  "validate_response response = Inl (BadResponseException x) \<Longrightarrow> x = response"
  using py_in_not_bad [of _ response x] getitem_not_bad [of response _ x]
  by (auto simp: validate_response_def and_then_def split: sum.splits if_splits)


text \<open>
  C4. For a response body that is a JSON object: the call raises
  \<open>BadResponseException\<close>, carrying that body, exactly when the body has no key
  \<^verbatim>\<open>usage\<close>, or no key \<^verbatim>\<open>choices\<close>, or a value of \<^verbatim>\<open>choices\<close> that is
  falsy (the empty list, but also null, false, 0, the empty string and the empty object);
  it raises it carrying no other value; and a body with a key \<^verbatim>\<open>usage\<close> and a
  non-empty list of choices passes the validation.
\<close>

theorem C4_malformed_response:
  assumes "request_data env p t m g = Inr (data, n)"
    and "list_all throttled pre" and "length pre < sem"
    and "status res < 400" and "body res = Some (PDict kvs)"
  shows "(fst (call_openai_chat env p t m g i (pre @ Responded res # rest) sem)
            = Some (Inl (BadResponseException (PDict kvs))))
         = (''usage'' \<notin> fst ` set kvs \<or> ''choices'' \<notin> fst ` set kvs
            \<or> (\<exists>v. map_of kvs ''choices'' = Some v \<and> \<not> truthy v))
       \<and> (\<forall>x. fst (call_openai_chat env p t m g i (pre @ Responded res # rest) sem)
                 = Some (Inl (BadResponseException x)) \<longrightarrow> x = PDict kvs)
       \<and> (\<forall>c cs. ''usage'' \<in> fst ` set kvs \<and> map_of kvs ''choices'' = Some (PList (c # cs))
            \<longrightarrow> validate_response (PDict kvs) = Inr ()
              \<and> (\<forall>x. fst (call_openai_chat env p t m g i (pre @ Responded res # rest) sem)
                       \<noteq> Some (Inl (BadResponseException x))))"
proof -
  have r: "\<not> throttled (Responded res)"
    using assms(4) by (simp add: throttled_def)
  have settled: "settle (Responded res) = Inr (PDict kvs)"
    using assms(4,5) by (simp add: settle_def)
  have run: "fst (call_openai_chat env p t m g i (pre @ Responded res # rest) sem)
               = Some (shape_result env p t m g i (PDict kvs))"
    by (simp add: call_openai_chat_retries [OF assms(1,2) r assms(3)] settled)
  have keys: "map_of kvs ''choices'' = Some (PList (c # cs)) \<Longrightarrow> ''choices'' \<in> fst ` set kvs"
    for c cs
    by (metis map_of_eq_None_iff option.distinct(1))
  show ?thesis
    using keys
    by (auto simp: run shape_result_bad_response validate_response_dict)
qed

theorem C4_malformed_response_witness:
  "fst (call_openai_chat example_env ''Capital of France?'' None None ''gpt-4o-mini'' None
          [Responded (ok_response (PDict [(''choices'', PList [])]))] 1)
     = Some (Inl (BadResponseException (PDict [(''choices'', PList [])])))"
proof -
  let ?data = "PDict [(''model'', PStr ''gpt-4o-mini''),
                      (''messages'', PList [message ''user'' ''Capital of France?''])]"
  have h1: "request_data example_env ''Capital of France?'' None None ''gpt-4o-mini''
              = Inr (?data, 7)"
    by (simp add: request_data_def example_env_def construct_messages_def text_or_prompt_def)
  have h2: "list_all throttled []" and h3: "length ([] :: reply list) < 1"
    by simp_all
  have h4: "status (ok_response (PDict [(''choices'', PList [])])) < 400"
    and h5: "body (ok_response (PDict [(''choices'', PList [])])) = Some (PDict [(''choices'', PList [])])"
    by (simp_all add: ok_response_def)
  from C4_malformed_response [OF h1 h2 h3 h4 h5, of None "[]"]
  show ?thesis by simp
qed

text \<open>
  The claim's own condition (no usage object, no choices key, or an empty choices list) is
  not the one the source tests: a body with a usage object and \<^verbatim>\<open>"choices": null\<close>
  has the key and no empty list, and the call raises \<open>BadResponseException\<close> for it.
\<close>

theorem C4_null_choices_counterexample:
  "fst (call_openai_chat example_env ''Capital of France?'' None None ''gpt-4o-mini'' None
          [Responded (ok_response (PDict [(''usage'', example_usage), (''choices'', PNone)]))] 1)
     = Some (Inl (BadResponseException (PDict [(''usage'', example_usage), (''choices'', PNone)])))
   \<and> map_of [(''usage'', example_usage), (''choices'', PNone)] ''usage'' = Some example_usage
   \<and> ''choices'' \<in> fst ` set [(''usage'', example_usage), (''choices'', PNone)]
   \<and> map_of [(''usage'', example_usage), (''choices'', PNone)] ''choices'' \<noteq> Some (PList [])"
  by (simp add: call_openai_chat_def request_data_def example_env_def construct_messages_def
        text_or_prompt_def priv_call_openai_chat.simps ok_response_def shape_result_def
        validate_response_def and_then_def)

section \<open>The envelope of a call with a model class\<close>

lemma those_init_field:
  "those (map (init_field kwargs) flds) = Some vals \<Longrightarrow>
   map_of vals k =
     (case map_of flds k of
        None \<Rightarrow> None
      | Some f \<Rightarrow> (case map_of kwargs k of
                      Some v \<Rightarrow> field_validate f v
                    | None \<Rightarrow> field_default f))"
proof (induction flds arbitrary: vals)
  case Nil
  then show ?case by simp
next
  case (Cons kf flds)
  obtain k' validate dflt where kf: "kf = (k', Field validate dflt)"
    by (metis field.exhaust surj_pair)
  from Cons.prems obtain v vs where v: "init_field kwargs kf = Some v"
    and vs: "those (map (init_field kwargs) flds) = Some vs" and vals: "vals = v # vs"
    by (auto split: option.splits)
  from v kf have fst: "fst v = k'"
    by (auto split: option.splits)
  show ?case
  proof (cases "k = k'")
    case True
    with v kf vals fst show ?thesis
      by (cases v) (auto split: option.splits)
  next
    case False
    with Cons.IH [OF vs] kf vals fst show ?thesis
      by (cases v) auto
  qed
qed

lemma inherited_fields_lookup:
  "k \<in> set metadata_names \<Longrightarrow>
   map_of (filter (\<lambda>(n, f). n \<notin> set metadata_names) flds) k = None"
  by (induction flds) auto

lemma chat_output_fields_raw_input:
  "map_of (chat_output_fields env c p t g) ''gpt_raw_input''
     = Some (Field str_validate (Some (PStr (text_or_prompt t p))))"
proof -
  have "''gpt_raw_input'' \<in> set metadata_names"
    by (simp add: metadata_names_def)
  then have "map_of (filter (\<lambda>(n, f). n \<notin> set metadata_names) (model_fields c))
               ''gpt_raw_input'' = None"
    by (rule inherited_fields_lookup)
  then show ?thesis
    by (simp add: chat_output_fields_def map_add_def)
qed

lemma chat_output_raw_input:
  assumes "shape_result env p t (Some c) g i response = Inr out"
    and "first_choice_content response = Inr (PStr s)"
    and "json_loads env s = Some (PDict kvs)"
    and "''gpt_raw_input'' \<notin> fst ` set kvs"
  shows "\<exists>vals. out = ChatOutput vals
           \<and> map_of vals ''gpt_raw_input'' = Some (PStr (text_or_prompt t p))"
proof -
  from assms(1-3) obtain usage vals
    where init: "model_init (chat_output_fields env c p t g)
                   ([(''id'', optional_str i), (''gpt_tokens_used'', usage)] @ kvs) = Inr vals"
      and out: "out = ChatOutput vals"
    by (auto simp: shape_result_def and_then_def loads_def chat_output_kwargs_def
             split: sum.splits if_splits)
  from init have those:
    "those (map (init_field ([(''id'', optional_str i), (''gpt_tokens_used'', usage)] @ kvs))
        (chat_output_fields env c p t g)) = Some vals"
    by (auto simp: model_init_def split: option.splits)
  have absent: "map_of ([(''id'', optional_str i), (''gpt_tokens_used'', usage)] @ kvs)
                  ''gpt_raw_input'' = None"
    using assms(4) by (simp add: map_of_eq_None_iff)
  from those_init_field [OF those, of "''gpt_raw_input''"] out
  show ?thesis
    by (simp only: chat_output_fields_raw_input absent option.case field.sel) simp
qed

lemma posted_messages:
  assumes "Post d \<in> set (snd (snd (call_openai_chat env p t m g i replies sem)))"
  shows "getitem d ''messages'' = Inr (PList (construct_messages p t))"
proof -
  from call_openai_chat_posts [OF assms] obtain n where "request_data env p t m g = Inr (d, n)" ..
  then show ?thesis
    by (auto simp: request_data_def Let_def split: option.splits sum.splits)
qed

text \<open>
  C10. A call whose text is the empty string builds, and sends in every request body, a
  system message and a user message that both hold the prompt; and when it returns a
  \<open>ChatOutput\<close>, built from a content that does not itself carry an entry
  \<^verbatim>\<open>gpt_raw_input\<close>, the field \<^verbatim>\<open>gpt_raw_input\<close> holds the prompt.
\<close>

theorem C10_empty_text:
  assumes "list_all throttled pre" and "length pre < sem"
    and "status res < 400" and "body res = Some response"
    and "first_choice_content response = Inr (PStr s)"
    and "json_loads env s = Some (PDict kvs)"
    and "''gpt_raw_input'' \<notin> fst ` set kvs"
    and "fst (call_openai_chat env p (Some '''') (Some c) g i (pre @ Responded res # rest) sem)
           = Some (Inr out)"
  shows "construct_messages p (Some '''') = [message ''system'' p, message ''user'' p]
       \<and> (\<forall>d. Post d \<in> set (snd (snd (call_openai_chat env p (Some '''') (Some c) g i
                                         (pre @ Responded res # rest) sem)))
              \<longrightarrow> getitem d ''messages'' = Inr (PList [message ''system'' p, message ''user'' p]))
       \<and> (\<exists>vals. out = ChatOutput vals \<and> map_of vals ''gpt_raw_input'' = Some (PStr p))"
proof -
  have msgs: "construct_messages p (Some '''') = [message ''system'' p, message ''user'' p]"
    by (simp add: construct_messages_def text_or_prompt_def)
  have posts: "getitem d ''messages'' = Inr (PList [message ''system'' p, message ''user'' p])"
    if "Post d \<in> set (snd (snd (call_openai_chat env p (Some '''') (Some c) g i
                                   (pre @ Responded res # rest) sem)))" for d
    using posted_messages [OF that] by (simp add: msgs)
  have r: "\<not> throttled (Responded res)"
    using assms(3) by (simp add: throttled_def)
  have settled: "settle (Responded res) = Inr response"
    using assms(3,4) by (simp add: settle_def)
  obtain data n where rd: "request_data env p (Some '''') (Some c) g = Inr (data, n)"
    using assms(8) by (cases "request_data env p (Some '''') (Some c) g")
      (auto simp: call_openai_chat_def)
  have "fst (call_openai_chat env p (Some '''') (Some c) g i (pre @ Responded res # rest) sem)
          = Some (shape_result env p (Some '''') (Some c) g i response)"
    by (simp add: call_openai_chat_retries [OF rd assms(1) r assms(2)] settled)
  with assms(8) have "shape_result env p (Some '''') (Some c) g i response = Inr out"
    by simp
  from chat_output_raw_input [OF this assms(5-7)]
  have "\<exists>vals. out = ChatOutput vals \<and> map_of vals ''gpt_raw_input'' = Some (PStr p)"
    by (simp add: text_or_prompt_def)
  with msgs posts show ?thesis by blast
qed

lemma example_run:
  "t = None \<or> t = Some '''' \<or> t = Some ''France'' \<Longrightarrow>
   call_openai_chat example_env ''Capital of?'' t (Some answer_model) ''gpt-4o-mini''
     (Some ''row-1'') [Responded (ok_response (completion (PStr paris_json)))] 1
   = (Some (Inr (ChatOutput
        [(''text'', PStr ''Paris''),
         (''gpt_called_at'', PStr ''2024-05-01T12:00:00''),
         (''gpt_tokens_used'', example_usage),
         (''gpt_raw_input'', PStr (text_or_prompt t ''Capital of?'')),
         (''gpt_model'', PStr ''gpt-4o-mini''),
         (''id'', PStr ''row-1'')])), 1,
      [WaitForAvailability (Some (7 * length (construct_messages ''Capital of?'' t))), Acquire,
       Post (PDict [(''model'', PStr ''gpt-4o-mini''),
                    (''messages'', PList (construct_messages ''Capital of?'' t)),
                    (''response_format'',
                     PDict [(''type'', PStr ''json_schema''),
                            (''json_schema'',
                             PDict [(''name'', PStr ''Answer''),
                                    (''description'', PStr ''An answer''),
                                    (''schema'', PDict (dict_set ''additionalProperties''
                                       (PBool False) (model_json_schema answer_model))),
                                    (''strict'', PBool True)])])]),
       UpdateFromHeaders [(''x-ratelimit-remaining-requests'', ''9999'')], Release])"
  by (simp add: call_openai_chat_def request_data_def get_json_schema_from_pydantic_def
        priv_call_openai_chat.simps ok_response_def shape_result_def validate_response_def
        first_choice_content_def and_then_def completion_def loads_def chat_output_kwargs_def
        model_init_def chat_output_fields_def metadata_names_def answer_model_def
        example_env_def example_usage_def str_validate_def optional_str_validate_def
        optional_str_def Let_def)

theorem C10_empty_text_witness:
  "case fst (call_openai_chat example_env ''Capital of?'' (Some '''') (Some answer_model)
               ''gpt-4o-mini'' (Some ''row-1'')
               [Responded (ok_response (completion (PStr paris_json)))] 1) of
     Some (Inr (ChatOutput vals)) \<Rightarrow> map_of vals ''gpt_raw_input'' = Some (PStr ''Capital of?'')
   | _ \<Rightarrow> False"
proof -
  let ?res = "ok_response (completion (PStr paris_json))"
  have h1: "list_all throttled []" and h2: "length ([] :: reply list) < 1"
    by simp_all
  have h3: "status ?res < 400" and h4: "body ?res = Some (completion (PStr paris_json))"
    by (simp_all add: ok_response_def)
  have h5: "first_choice_content (completion (PStr paris_json)) = Inr (PStr paris_json)"
    by (simp add: first_choice_content_def completion_def and_then_def)
  have h6: "json_loads example_env paris_json = Some (PDict [(''text'', PStr ''Paris'')])"
    by (simp add: example_env_def)
  have h7: "''gpt_raw_input'' \<notin> fst ` set [(''text'', PStr ''Paris'')]"
    by simp
  obtain vals where run:
    "fst (call_openai_chat example_env ''Capital of?'' (Some '''') (Some answer_model)
            ''gpt-4o-mini'' (Some ''row-1'') ([] @ Responded ?res # []) 1)
       = Some (Inr (ChatOutput vals))"
    using example_run [of "Some ''''"] by simp
  from C10_empty_text [OF h1 h2 h3 h4 h5 h6 h7 run]
  have "map_of vals ''gpt_raw_input'' = Some (PStr ''Capital of?'')"
    by simp
  with run show ?thesis by simp
qed

text \<open>
  The claim as it stands, with no condition on the content, fails: the keyword arguments
  of line 123 come before the default of line 119, so a content with an entry
  \<^verbatim>\<open>gpt_raw_input\<close> decides the field, here with the empty text and the value
  \<^verbatim>\<open>"zzz"\<close>, which is neither the prompt nor the text.
\<close>

theorem C10_content_override_counterexample:
  "fst (call_openai_chat override_env ''Capital of?'' (Some '''') (Some answer_model)
          ''gpt-4o-mini'' (Some ''row-1'')
          [Responded (ok_response (completion (PStr override_json)))] 1)
     = Some (Inr (ChatOutput
        [(''text'', PStr ''Paris''),
         (''gpt_called_at'', PStr ''2024-05-01T12:00:00''),
         (''gpt_tokens_used'', example_usage),
         (''gpt_raw_input'', PStr ''zzz''),
         (''gpt_model'', PStr ''gpt-4o-mini''),
         (''id'', PStr ''row-1'')]))
   \<and> map_of [(''text'', PStr ''Paris''),
         (''gpt_called_at'', PStr ''2024-05-01T12:00:00''),
         (''gpt_tokens_used'', example_usage),
         (''gpt_raw_input'', PStr ''zzz''),
         (''gpt_model'', PStr ''gpt-4o-mini''),
         (''id'', PStr ''row-1'')] ''gpt_raw_input'' \<noteq> Some (PStr ''Capital of?'')"
  by (simp add: call_openai_chat_def request_data_def get_json_schema_from_pydantic_def
        priv_call_openai_chat.simps ok_response_def shape_result_def validate_response_def
        first_choice_content_def and_then_def completion_def loads_def chat_output_kwargs_def
        model_init_def chat_output_fields_def metadata_names_def answer_model_def
        override_env_def example_env_def example_usage_def str_validate_def
        optional_str_validate_def optional_str_def Let_def construct_messages_def
        text_or_prompt_def)

text \<open>
  The round trip of a model class with the one field \<^verbatim>\<open>text: str\<close>: when the content
  of the first choice decodes to \<^verbatim>\<open>{"text": "Paris"}\<close>, the call returns a
  \<open>ChatOutput\<close> with that field, the time of the call, the validated usage, the raw input
  \<^verbatim>\<open>text or prompt\<close>, the requested model and the id.
\<close>

lemma schema_round_trip:
  assumes "request_data env p t (Some c) g = Inr (data, n)"
    and "model_fields c = [(''text'', Field str_validate None)]"
    and "list_all throttled pre" and "length pre < sem"
    and "status res < 400" and "body res = Some response"
    and "validate_response response = Inr ()"
    and "getitem response ''usage'' = Inr usage"
    and "first_choice_content response = Inr (PStr s)"
    and "json_loads env s = Some (PDict [(''text'', PStr ''Paris'')])"
    and "gpt_tokens_validate env usage = Some tokens"
  shows "fst (call_openai_chat env p t (Some c) g i (pre @ Responded res # rest) sem)
           = Some (Inr (ChatOutput
               [(''text'', PStr ''Paris''),
                (''gpt_called_at'', datetime_now env),
                (''gpt_tokens_used'', tokens),
                (''gpt_raw_input'', PStr (text_or_prompt t p)),
                (''gpt_model'', PStr g),
                (''id'', optional_str i)]))"
proof -
  have r: "\<not> throttled (Responded res)"
    using assms(5) by (simp add: throttled_def)
  have settled: "settle (Responded res) = Inr response"
    using assms(5,6) by (simp add: settle_def)
  have "optional_str_validate (optional_str i) = Some (optional_str i)"
    by (cases i) (simp_all add: optional_str_def optional_str_validate_def)
  then have "shape_result env p t (Some c) g i response
         = Inr (ChatOutput
               [(''text'', PStr ''Paris''),
                (''gpt_called_at'', datetime_now env),
                (''gpt_tokens_used'', tokens),
                (''gpt_raw_input'', PStr (text_or_prompt t p)),
                (''gpt_model'', PStr g),
                (''id'', optional_str i)])"
    using assms(2,7-11)
    by (simp add: shape_result_def and_then_def loads_def chat_output_kwargs_def model_init_def
          chat_output_fields_def metadata_names_def str_validate_def)
  then show ?thesis
    by (simp add: call_openai_chat_retries [OF assms(1,3) r assms(4)] settled)
qed

text \<open>
  C7. The claim: the envelope of a call with a model class has the parsed field, the
  requested model, the usage, the id, and as raw input the text, or the prompt when the
  text is absent. At the present but empty text \<^verbatim>\<open>""\<close> the source's
  \<^verbatim>\<open>text or prompt\<close> (line 119) makes the raw input the prompt.
\<close>

theorem C7_empty_text_raw_input:
  "fst (call_openai_chat example_env ''Capital of?'' (Some '''') (Some answer_model)
          ''gpt-4o-mini'' (Some ''row-1'')
          [Responded (ok_response (completion (PStr paris_json)))] 1)
     = Some (Inr (ChatOutput
        [(''text'', PStr ''Paris''),
         (''gpt_called_at'', PStr ''2024-05-01T12:00:00''),
         (''gpt_tokens_used'', example_usage),
         (''gpt_raw_input'', PStr ''Capital of?''),
         (''gpt_model'', PStr ''gpt-4o-mini''),
         (''id'', PStr ''row-1'')]))"
  using example_run [of "Some ''''"] by (simp add: text_or_prompt_def)

section \<open>A batch: what every move keeps\<close>














section \<open>A batch: the outcome of each call\<close>
















section \<open>A batch: running to the end\<close>













section \<open>A batch: concrete runs\<close>






section \<open>A batch: the claims\<close>











text \<open>A state in which no call can move is never left.\<close>

lemma stuck_forever:
  assumes "\<forall>i. step_task b i st = None" and "exec b sched st = Some st'"
  shows "sched = [] \<and> st' = st"
  using assms by (cases sched) auto

end
